theory Spec2Isabelle
  imports Complex_Main "HOL-Library.Char_ord" "HOL-Library.List_Lexorder"
begin

unbundle bit_operations_syntax

section \<open>Data model (utilities/models.py)\<close>

text \<open>
  The pydantic models are records, the string enums are datatypes.  A field name that is
  used by two models, or that is already a HOL constant, carries a suffix: the field
  \<open>id\<close> of \<open>Book\<close> is \<open>id_bk\<close>, the fields \<open>description\<close> and \<open>id\<close> of
  \<open>ChangeLog\<close> are \<open>description_cl\<close> and \<open>id_cl\<close>, the field \<open>id\<close> of
  \<open>CrawlCheckpoint\<close> is \<open>id_cp\<close>.

  A Python \<open>int\<close> is an \<open>int\<close>, a \<open>datetime\<close> is a natural number of clock
  ticks, a \<open>str\<close> is a \<open>string\<close>.
\<close>

text \<open>
  A Python \<open>float\<close>: a finite value is the real number it denotes, except that there
  are two zeros, \<open>Finite 0\<close> for \<open>0.0\<close> and \<open>NegZero\<close> for \<open>-0.0\<close>; beside them the
  two infinities and NaN.  \<open>float_eq\<close> is the comparison \<open>==\<close>: the two zeros are
  equal, NaN is equal to nothing.
\<close>

datatype pyfloat = Finite real | NegZero | PosInf | NegInf | NaN

fun float_eq :: "pyfloat \<Rightarrow> pyfloat \<Rightarrow> bool" where
  "float_eq (Finite x) (Finite y) = (x = y)"
| "float_eq (Finite x) NegZero = (x = 0)"
| "float_eq NegZero (Finite y) = (y = 0)"
| "float_eq NegZero NegZero = True"
| "float_eq PosInf PosInf = True"
| "float_eq NegInf NegInf = True"
| "float_eq x y = False"

type_synonym url = string
type_synonym html = string
type_synonym datetime = nat

datatype CrawlStatus = SUCCESS | FAILED | PARTIAL

datatype BookRating = ONE | TWO | THREE | FOUR | FIVE

datatype ChangeType = NEW_BOOK | PRICE_CHANGE | AVAILABILITY_CHANGE | CONTENT_CHANGE | DELETED

record Book =
  name :: string
  description :: "string option"
  category :: string
  price_excl_tax :: pyfloat
  price_incl_tax :: pyfloat
  availability :: string
  num_available :: int
  num_reviews :: int
  rating :: BookRating
  image_url :: string
  source_url :: string
  crawl_timestamp :: datetime
  crawl_status :: CrawlStatus
  raw_html :: "string option"
  content_hash :: "string option"
  id_bk :: "string option"

text \<open>The values a \<open>dict\<close> of this program holds: floats, ints and strings.\<close>

datatype pyval = PyFloat pyfloat | PyInt int | PyStr string

type_synonym pydict = "(string \<times> pyval) list"

record ChangeLog =
  book_id :: string
  book_name :: string
  change_type :: ChangeType
  change_timestamp :: datetime
  old_value :: "pydict option"
  new_value :: "pydict option"
  description_cl :: "string option"
  id_cl :: "string option"

record CrawlCheckpoint =
  checkpoint_id :: string
  last_page_url :: string
  last_book_url :: "string option"
  total_books_crawled :: nat
  timestamp :: datetime
  status :: CrawlStatus
  id_cp :: "string option"

section \<open>Formatting of numbers in f-strings\<close>

text \<open>The decimal digit \<open>d < 10\<close> as a character.\<close>

definition digit_char :: "nat \<Rightarrow> char" where
  "digit_char d = ''0123456789'' ! d"

function str_nat :: "nat \<Rightarrow> string" where
  "str_nat n = (if n < 10 then [digit_char n] else str_nat (n div 10) @ [digit_char (n mod 10)])"
  by pat_completeness auto
termination
  by (relation "measure (\<lambda>n. n)") auto

declare str_nat.simps [simp del]

text \<open>\<open>f"{i}"\<close> for an \<open>int\<close>.\<close>

definition str_int :: "int \<Rightarrow> string" where
  "str_int i = (if i < 0 then ''-'' @ str_nat (nat (- i)) else str_nat (nat i))"

text \<open>
  \<open>f"{x:.2f}"\<close>: the decimal expansion of \<open>x\<close> with two fractional digits, correctly
  rounded, ties to even.
\<close>

definition round_half_even :: "real \<Rightarrow> int" where
  "round_half_even x =
     (let f = \<lfloor>x\<rfloor>; r = x - of_int f
      in if r < 1 / 2 then f
         else if 1 / 2 < r then f + 1
         else if even f then f else f + 1)"

definition fmt_2f :: "pyfloat \<Rightarrow> string" where
  "fmt_2f v =
     (case v of
        Finite x \<Rightarrow>
          (let n = nat (round_half_even (\<bar>x\<bar> * 100))
           in (if x < 0 then ''-'' else '''')
              @ str_nat (n div 100) @ ''.''
              @ [digit_char (n mod 100 div 10), digit_char (n mod 10)])
      | NegZero \<Rightarrow> ''-0.00''
      | PosInf \<Rightarrow> ''inf''
      | NegInf \<Rightarrow> ''-inf''
      | NaN \<Rightarrow> ''nan'')"

section \<open>The comparison (scheduler/detector.py)\<close>

text \<open>\<open>a or b\<close> on an optional string: \<open>None\<close> and the empty string are falsy.\<close>

definition py_or :: "string option \<Rightarrow> string \<Rightarrow> string" where
  "py_or a b = (case a of None \<Rightarrow> b | Some s \<Rightarrow> if s = [] then b else s)"

text \<open>
  \<open>ChangeDetector.compare_books\<close>.  Every \<open>ChangeLog\<close> that is built reads the clock
  once (the default factory of \<open>change_timestamp\<close>); \<open>utcnow k\<close> is what the clock
  returns at the \<open>k\<close>-th reading of this call, and the number of readings so far is the
  number of entries already appended.  The pound sign of the price description is the
  character with code \<open>0xA3\<close>.  Log lines are not modelled.
\<close>

definition compare_books :: "(nat \<Rightarrow> datetime) \<Rightarrow> Book \<Rightarrow> Book \<Rightarrow> ChangeLog list" where
  "compare_books utcnow old_book new_book =
     (let changes = [];
          bid = py_or (id_bk old_book) (source_url old_book);
          bname = name old_book;
          changes =
            (if \<not> float_eq (price_incl_tax old_book) (price_incl_tax new_book)
             then changes @
               [\<lparr> book_id = bid, book_name = bname, change_type = PRICE_CHANGE,
                   change_timestamp = utcnow (length changes),
                   old_value = Some [(''price_incl_tax'', PyFloat (price_incl_tax old_book))],
                   new_value = Some [(''price_incl_tax'', PyFloat (price_incl_tax new_book))],
                   description_cl = Some (''Price changed from '' @ [CHR 0xA3]
                      @ fmt_2f (price_incl_tax old_book) @ '' to '' @ [CHR 0xA3]
                      @ fmt_2f (price_incl_tax new_book)),
                   id_cl = None \<rparr>]
             else changes);
          changes =
            (if num_available old_book \<noteq> num_available new_book
             then changes @
               [\<lparr> book_id = bid, book_name = bname, change_type = AVAILABILITY_CHANGE,
                   change_timestamp = utcnow (length changes),
                   old_value = Some [(''num_available'', PyInt (num_available old_book)),
                                     (''availability'', PyStr (availability old_book))],
                   new_value = Some [(''num_available'', PyInt (num_available new_book)),
                                     (''availability'', PyStr (availability new_book))],
                   description_cl = Some (''Availability changed from ''
                      @ str_int (num_available old_book) @ '' to ''
                      @ str_int (num_available new_book)),
                   id_cl = None \<rparr>]
             else changes);
          changes =
            (if num_reviews old_book \<noteq> num_reviews new_book
             then changes @
               [\<lparr> book_id = bid, book_name = bname, change_type = CONTENT_CHANGE,
                   change_timestamp = utcnow (length changes),
                   old_value = Some [(''num_reviews'', PyInt (num_reviews old_book))],
                   new_value = Some [(''num_reviews'', PyInt (num_reviews new_book))],
                   description_cl = Some (''Reviews changed from ''
                      @ str_int (num_reviews old_book) @ '' to ''
                      @ str_int (num_reviews new_book)),
                   id_cl = None \<rparr>]
             else changes);
          changes =
            (if changes = [] \<and> content_hash old_book \<noteq> content_hash new_book
             then changes @
               [\<lparr> book_id = bid, book_name = bname, change_type = CONTENT_CHANGE,
                   change_timestamp = utcnow (length changes),
                   old_value = None,
                   new_value = None,
                   description_cl = Some (''Content changed for '' @ [CHR 0x27] @ bname
                      @ [CHR 0x27] @ '' (rating or other field)''),
                   id_cl = None \<rparr>]
             else changes)
      in changes)"

text \<open>
  The two kinds of entry \<open>compare_books\<close> builds: the generic entry has the kind
  \<open>content_change\<close> and neither an \<open>old_value\<close> nor a \<open>new_value\<close>; an entry for a
  tracked field carries the old and the new value of that field.
\<close>

definition is_generic :: "ChangeLog \<Rightarrow> bool" where
  "is_generic e = (change_type e = CONTENT_CHANGE \<and> old_value e = None \<and> new_value e = None)"

definition is_field_specific :: "ChangeLog \<Rightarrow> bool" where
  "is_field_specific e = (old_value e \<noteq> None \<or> new_value e \<noteq> None)"

text \<open>An entry without the reading of the clock: what two runs can be compared on.\<close>

definition event_content ::
  "ChangeLog \<Rightarrow> string \<times> string \<times> ChangeType \<times> pydict option \<times> pydict option \<times> string option \<times> string option" where
  "event_content e =
     (book_id e, book_name e, change_type e, old_value e, new_value e, description_cl e, id_cl e)"

section \<open>The content fingerprint (utilities/database.py)\<close>

text \<open>The value of a member of the string enum \<open>BookRating\<close>.\<close>

fun rating_value :: "BookRating \<Rightarrow> string" where
  "rating_value ONE = ''One''"
| "rating_value TWO = ''Two''"
| "rating_value THREE = ''Three''"
| "rating_value FOUR = ''Four''"
| "rating_value FIVE = ''Five''"

text \<open>The dict \<open>content\<close> of \<open>compute_content_hash\<close>, in the order the source writes it.\<close>

definition content :: "Book \<Rightarrow> pydict" where
  "content book =
     [(''name'', PyStr (name book)),
      (''price_incl_tax'', PyFloat (price_incl_tax book)),
      (''price_excl_tax'', PyFloat (price_excl_tax book)),
      (''availability'', PyStr (availability book)),
      (''num_available'', PyInt (num_available book)),
      (''num_reviews'', PyInt (num_reviews book)),
      (''rating'', PyStr (rating_value (rating book)))]"

text \<open>
  The text \<open>json.dumps\<close> writes for a float: \<open>NaN\<close>, \<open>Infinity\<close> and \<open>-Infinity\<close>, and
  else its \<open>repr\<close>, which has the sign first (\<open>-0.0\<close> for the negative zero) and, for a
  whole number below \<open>10 ^ 16\<close>, the digits of the number and \<open>.0\<close>.  The \<open>repr\<close> of
  any other positive magnitude is the shortest decimal that reads back as the same
  double; it depends on the binary representation and is a parameter \<open>repr_fraction\<close>.
\<close>

definition float_repr_abs :: "(real \<Rightarrow> string) \<Rightarrow> real \<Rightarrow> string" where
  "float_repr_abs repr_fraction m =
     (if m = of_int \<lfloor>m\<rfloor> \<and> m < 10 ^ 16 then str_nat (nat \<lfloor>m\<rfloor>) @ ''.0''
      else repr_fraction m)"

definition json_float :: "(real \<Rightarrow> string) \<Rightarrow> pyfloat \<Rightarrow> string" where
  "json_float repr_fraction v =
     (case v of
        Finite x \<Rightarrow> (if x < 0 then ''-'' else '''') @ float_repr_abs repr_fraction \<bar>x\<bar>
      | NegZero \<Rightarrow> ''-0.0''
      | PosInf \<Rightarrow> ''Infinity''
      | NegInf \<Rightarrow> ''-Infinity''
      | NaN \<Rightarrow> ''NaN'')"

text \<open>
  \<open>json.dumps(content, sort_keys=True)\<close> with the default separators and
  \<open>ensure_ascii\<close>: the items in the order of their keys, a string between double quotes
  with the escapes of the \<open>json\<close> module (a \<open>char\<close> is a code point below 256 here).
\<close>

definition hex_digit :: "nat \<Rightarrow> char" where
  "hex_digit d = ''0123456789abcdef'' ! d"

definition json_escape_char :: "char \<Rightarrow> string" where
  "json_escape_char c =
     (let n = (of_char c :: nat)
      in if n = 0x5C then [CHR 0x5C, CHR 0x5C]
         else if n = 0x22 then [CHR 0x5C, CHR 0x22]
         else if n = 0x08 then [CHR 0x5C, CHR ''b'']
         else if n = 0x0C then [CHR 0x5C, CHR ''f'']
         else if n = 0x0A then [CHR 0x5C, CHR ''n'']
         else if n = 0x0D then [CHR 0x5C, CHR ''r'']
         else if n = 0x09 then [CHR 0x5C, CHR ''t'']
         else if 0x20 \<le> n \<and> n \<le> 0x7E then [c]
         else [CHR 0x5C, CHR ''u'', CHR ''0'', CHR ''0'', hex_digit (n div 16), hex_digit (n mod 16)])"

definition json_string :: "string \<Rightarrow> string" where
  "json_string s = [CHR 0x22] @ concat (map json_escape_char s) @ [CHR 0x22]"

fun json_value :: "(real \<Rightarrow> string) \<Rightarrow> pyval \<Rightarrow> string" where
  "json_value repr_fraction (PyFloat x) = json_float repr_fraction x"
| "json_value repr_fraction (PyInt i) = str_int i"
| "json_value repr_fraction (PyStr s) = json_string s"

fun join :: "string \<Rightarrow> string list \<Rightarrow> string" where
  "join sep [] = []"
| "join sep [x] = x"
| "join sep (x # y # ys) = x @ sep @ join sep (y # ys)"

definition json_dumps_sort_keys :: "(real \<Rightarrow> string) \<Rightarrow> pydict \<Rightarrow> string" where
  "json_dumps_sort_keys repr_fraction d =
     ''{'' @ join '', '' (map (\<lambda>(k, v). json_string k @ '': '' @ json_value repr_fraction v)
                              (sort_key fst d)) @ ''}''"

section \<open>SHA-256 (hashlib.sha256)\<close>

text \<open>
  The hash function of FIPS 180-4 on a list of bytes.  A 32-bit word is a natural number
  below \<open>2 ^ 32\<close>; sums are reduced modulo \<open>2 ^ 32\<close>.
\<close>

definition add32 :: "nat \<Rightarrow> nat \<Rightarrow> nat" where
  "add32 x y = (x + y) mod 4294967296"

definition rotr :: "nat \<Rightarrow> nat \<Rightarrow> nat" where
  "rotr n x = x div 2 ^ n + (x mod 2 ^ n) * 2 ^ (32 - n)"

definition shr :: "nat \<Rightarrow> nat \<Rightarrow> nat" where
  "shr n x = x div 2 ^ n"

definition Ch :: "nat \<Rightarrow> nat \<Rightarrow> nat \<Rightarrow> nat" where
  "Ch x y z = (x AND y) XOR ((4294967295 - x) AND z)"

definition Maj :: "nat \<Rightarrow> nat \<Rightarrow> nat \<Rightarrow> nat" where
  "Maj x y z = ((x AND y) XOR (x AND z)) XOR (y AND z)"

definition Sigma0 :: "nat \<Rightarrow> nat" where
  "Sigma0 x = (rotr 2 x XOR rotr 13 x) XOR rotr 22 x"

definition Sigma1 :: "nat \<Rightarrow> nat" where
  "Sigma1 x = (rotr 6 x XOR rotr 11 x) XOR rotr 25 x"

definition sigma0 :: "nat \<Rightarrow> nat" where
  "sigma0 x = (rotr 7 x XOR rotr 18 x) XOR shr 3 x"

definition sigma1 :: "nat \<Rightarrow> nat" where
  "sigma1 x = (rotr 17 x XOR rotr 19 x) XOR shr 10 x"

text \<open>
  The round constants (from the cube roots of the first 64 primes) and the initial hash
  value (from the square roots of the first 8 primes).
\<close>

definition K256 :: "nat list" where
  "K256 =
    [1116352408, 1899447441, 3049323471, 3921009573, 961987163, 1508970993,
     2453635748, 2870763221, 3624381080, 310598401, 607225278, 1426881987,
     1925078388, 2162078206, 2614888103, 3248222580, 3835390401, 4022224774,
     264347078, 604807628, 770255983, 1249150122, 1555081692, 1996064986,
     2554220882, 2821834349, 2952996808, 3210313671, 3336571891, 3584528711,
     113926993, 338241895, 666307205, 773529912, 1294757372, 1396182291,
     1695183700, 1986661051, 2177026350, 2456956037, 2730485921, 2820302411,
     3259730800, 3345764771, 3516065817, 3600352804, 4094571909, 275423344,
     430227734, 506948616, 659060556, 883997877, 958139571, 1322822218,
     1537002063, 1747873779, 1955562222, 2024104815, 2227730452, 2361852424,
     2428436474, 2756734187, 3204031479, 3329325298]"

definition H256 :: "nat list" where
  "H256 =
    [1779033703, 3144134277, 1013904242, 2773480762, 1359893119, 2600822924,
     528734635, 1541459225]"

definition T1 :: "nat \<Rightarrow> nat \<Rightarrow> nat \<Rightarrow> nat \<Rightarrow> nat \<Rightarrow> nat \<Rightarrow> nat" where
  "T1 e f g h k w = add32 (add32 (add32 (add32 h (Sigma1 e)) (Ch e f g)) k) w"

definition T2 :: "nat \<Rightarrow> nat \<Rightarrow> nat \<Rightarrow> nat" where
  "T2 a b c = add32 (Sigma0 a) (Maj a b c)"

text \<open>
  The message schedule is kept as a window of 16 words: its head is the word of the
  round, and the word 16 rounds ahead is appended.
\<close>

definition next_w :: "nat list \<Rightarrow> nat" where
  "next_w ws = add32 (add32 (add32 (sigma1 (ws ! 14)) (ws ! 9)) (sigma0 (ws ! 1))) (ws ! 0)"

fun rounds ::
  "nat list \<Rightarrow> nat list \<Rightarrow> nat \<Rightarrow> nat \<Rightarrow> nat \<Rightarrow> nat \<Rightarrow> nat \<Rightarrow> nat \<Rightarrow> nat \<Rightarrow> nat \<Rightarrow> nat list" where
  "rounds [] ws a b c d e f g h = [a, b, c, d, e, f, g, h]"
| "rounds (k # ks) ws a b c d e f g h =
     rounds ks (tl ws @ [next_w ws])
       (add32 (T1 e f g h k (hd ws)) (T2 a b c)) a b c
       (add32 d (T1 e f g h k (hd ws))) e f g"

definition compress :: "nat list \<Rightarrow> nat list \<Rightarrow> nat list" where
  "compress st ws =
     map (\<lambda>(x, y). add32 x y)
       (zip st (rounds K256 ws (st ! 0) (st ! 1) (st ! 2) (st ! 3) (st ! 4) (st ! 5) (st ! 6) (st ! 7)))"

fun words_of :: "nat list \<Rightarrow> nat list" where
  "words_of (b0 # b1 # b2 # b3 # bs) = (((b0 * 256 + b1) * 256 + b2) * 256 + b3) # words_of bs"
| "words_of bs = []"

definition pad :: "nat list \<Rightarrow> nat list" where
  "pad msg =
     msg @ [128] @ replicate ((119 - length msg mod 64) mod 64) 0
       @ map (\<lambda>i. (8 * length msg) div 256 ^ i mod 256) [7, 6, 5, 4, 3, 2, 1, 0]"

function sha256_blocks :: "nat list \<Rightarrow> nat list \<Rightarrow> nat list" where
  "sha256_blocks bytes st =
     (if bytes = [] then st
      else sha256_blocks (drop 64 bytes) (compress st (words_of (take 64 bytes))))"
  by pat_completeness auto
termination
  by (relation "measure (\<lambda>(bytes, st). length bytes)") auto

declare sha256_blocks.simps [simp del]

definition sha256 :: "nat list \<Rightarrow> nat list" where
  "sha256 msg = sha256_blocks (pad msg) H256"

definition hex32 :: "nat \<Rightarrow> string" where
  "hex32 w = map (\<lambda>i. hex_digit (w div 16 ^ i mod 16)) [7, 6, 5, 4, 3, 2, 1, 0]"

text \<open>\<open>s.encode()\<close>: UTF-8, of a string whose characters are code points below 256.\<close>

definition utf8_encode :: "string \<Rightarrow> nat list" where
  "utf8_encode s =
     concat (map (\<lambda>c. let n = (of_char c :: nat)
                        in if n < 128 then [n] else [192 + n div 64, 128 + n mod 64]) s)"

text \<open>\<open>hashlib.sha256(s.encode()).hexdigest()\<close>.\<close>

definition sha256_hexdigest :: "string \<Rightarrow> string" where
  "sha256_hexdigest s = concat (map hex32 (sha256 (utf8_encode s)))"

text \<open>\<open>Database.compute_content_hash\<close>.\<close>

definition compute_content_hash :: "(real \<Rightarrow> string) \<Rightarrow> Book \<Rightarrow> string" where
  "compute_content_hash repr_fraction book =
     (let content_str = json_dumps_sort_keys repr_fraction (content book)
      in sha256_hexdigest content_str)"

section \<open>The fetcher (crawler/scraper.py)\<close>

text \<open>
  What a request can raise.  \<open>HTTPStatusError\<close> is what \<open>raise_for_status\<close> raises for
  a response whose status is not 2xx; a timeout, a connection error and a URL without a
  supported scheme are transport errors.  All four are subclasses of \<open>httpx.HTTPError\<close>;
  \<open>httpx.InvalidURL\<close> and the exceptions of other libraries are not.
\<close>

datatype exn =
    HTTPStatusError nat
  | TimeoutException
  | ConnectError
  | UnsupportedProtocol
  | InvalidURL
  | OtherException

fun is_HTTPError :: "exn \<Rightarrow> bool" where
  "is_HTTPError (HTTPStatusError code) = True"
| "is_HTTPError TimeoutException = True"
| "is_HTTPError ConnectError = True"
| "is_HTTPError UnsupportedProtocol = True"
| "is_HTTPError InvalidURL = False"
| "is_HTTPError OtherException = False"

fun is_TimeoutException :: "exn \<Rightarrow> bool" where
  "is_TimeoutException TimeoutException = True"
| "is_TimeoutException e = False"

text \<open>A response: its status code and its text.\<close>

datatype response = Response nat html

text \<open>What the process does to the outside, in order: a GET request, a sleep.\<close>

datatype io_event = GET url | SLEEP real

text \<open>
  What the program is run against: the site (\<open>client_get k u\<close> is the outcome of
  \<open>client.get(u)\<close> when it is the \<open>k\<close>-th request of the process, counted from 0), the
  three functions of \<open>BookParser\<close> the scraper calls (they parse HTML), the
  parameter of the fingerprint, the clock (\<open>clock k\<close> is its \<open>k\<close>-th reading) and
  \<open>settings.target_url\<close>.
\<close>

record env =
  client_get :: "nat \<Rightarrow> url \<Rightarrow> exn + response"
  parse_book_list_page :: "html \<Rightarrow> url \<Rightarrow> url list"
  get_next_page_url :: "html \<Rightarrow> url \<Rightarrow> url option"
  parse_book_detail_page :: "html \<Rightarrow> url \<Rightarrow> Book option"
  repr_fraction :: "real \<Rightarrow> string"
  clock :: "nat \<Rightarrow> datetime"
  target_url :: string

text \<open>
  The state: the statistics of the \<open>BookScraper\<close> object, the two collections of the
  database the scraper writes (books by their unique \<open>source_url\<close>, checkpoints by their
  unique \<open>checkpoint_id\<close>; the identifiers MongoDB generates are not modelled), and what
  the process has done so far (\<open>io_trace\<close>, the number of requests, the number of
  readings of the clock).
\<close>

record state =
  total_books :: nat
  successful :: nat
  failed :: nat
  skipped :: nat
  start_time :: "datetime option"
  end_time :: "datetime option"
  books :: "url \<rightharpoonup> Book"
  checkpoints :: "string \<rightharpoonup> CrawlCheckpoint"
  io_trace :: "io_event list"
  n_requests :: nat
  n_clock :: nat

text \<open>\<open>BookScraper.__init__\<close> in a new process, on the database as it is.\<close>

definition BookScraper_init :: "(url \<rightharpoonup> Book) \<Rightarrow> (string \<rightharpoonup> CrawlCheckpoint) \<Rightarrow> state" where
  "BookScraper_init db_books db_checkpoints =
     \<lparr> total_books = 0, successful = 0, failed = 0, skipped = 0,
       start_time = None, end_time = None,
       books = db_books, checkpoints = db_checkpoints,
       io_trace = [], n_requests = 0, n_clock = 0 \<rparr>"

definition utcnow :: "env \<Rightarrow> state \<Rightarrow> datetime \<times> state" where
  "utcnow env s = (clock env (n_clock s), s\<lparr>n_clock := Suc (n_clock s)\<rparr>)"

definition sleep :: "real \<Rightarrow> state \<Rightarrow> state" where
  "sleep seconds s = s\<lparr>io_trace := io_trace s @ [SLEEP seconds]\<rparr>"

text \<open>
  The body of \<open>fetch_page\<close>, one attempt: the request, \<open>raise_for_status\<close>, the text.
  (The semaphore bounds how many of these run at once; the model runs them one after
  the other.)
\<close>

definition fetch_page_body :: "env \<Rightarrow> url \<Rightarrow> state \<Rightarrow> (exn + html) \<times> state" where
  "fetch_page_body env u s =
     (let s' = s\<lparr>io_trace := io_trace s @ [GET u], n_requests := Suc (n_requests s)\<rparr>
      in case client_get env (n_requests s) u of
           Inl e \<Rightarrow> (Inl e, s')
         | Inr (Response status_code txt) \<Rightarrow>
             if 200 \<le> status_code \<and> status_code \<le> 299 then (Inr txt, s')
             else (Inl (HTTPStatusError status_code), s'))"

text \<open>
  The decorator \<open>@retry(stop=stop_after_attempt(3), wait=wait_exponential(multiplier=1,
  min=2, max=10), retry=retry_if_exception_type((HTTPError, TimeoutException)),
  reraise=True)\<close> of the library \<open>tenacity\<close>: after a failed attempt, an exception that is
  not of the retried types is raised at once; otherwise the call stops, raising that last
  exception, when the number of the attempt has reached 3, and else sleeps
  \<open>max(max(0, min), min(multiplier * 2 ** (attempt_number - 1), max))\<close> seconds and
  tries again.
\<close>

definition stop_after_attempt :: "nat \<Rightarrow> nat \<Rightarrow> bool" where
  "stop_after_attempt max_attempt_number attempt_number = (max_attempt_number \<le> attempt_number)"

definition wait_exponential :: "real \<Rightarrow> real \<Rightarrow> real \<Rightarrow> nat \<Rightarrow> real" where
  "wait_exponential multiplier mn mx attempt_number =
     max (max 0 mn) (min (multiplier * 2 ^ (attempt_number - 1)) mx)"

definition retry_if_exception_type :: "exn \<Rightarrow> bool" where
  "retry_if_exception_type e = (is_HTTPError e \<or> is_TimeoutException e)"

function fetch_page_attempt :: "env \<Rightarrow> url \<Rightarrow> nat \<Rightarrow> state \<Rightarrow> (exn + html) \<times> state" where
  "fetch_page_attempt env u attempt_number s =
     (case fetch_page_body env u s of
        (Inr txt, s1) \<Rightarrow> (Inr txt, s1)
      | (Inl e, s1) \<Rightarrow>
          if \<not> retry_if_exception_type e then (Inl e, s1)
          else if stop_after_attempt 3 attempt_number then (Inl e, s1)
          else fetch_page_attempt env u (attempt_number + 1)
                 (sleep (wait_exponential 1 2 10 attempt_number) s1))"
  by pat_completeness auto
termination
  by (relation "measure (\<lambda>(env, u, attempt_number, s). 3 - attempt_number)")
     (auto simp add: stop_after_attempt_def)

declare fetch_page_attempt.simps [simp del]

definition fetch_page :: "env \<Rightarrow> url \<Rightarrow> state \<Rightarrow> (exn + html) \<times> state" where
  "fetch_page env u s = fetch_page_attempt env u 1 s"

section \<open>The crawl (crawler/scraper.py)\<close>

text \<open>\<open>Database.upsert_book\<close>: the document with this \<open>source_url\<close> is set, or inserted.\<close>

definition upsert_book :: "Book \<Rightarrow> state \<Rightarrow> bool \<times> state" where
  "upsert_book book s =
     (let is_new = (books s (source_url book) = None)
      in (is_new, s\<lparr>books := (books s)(source_url book \<mapsto> book)\<rparr>))"

text \<open>
  \<open>scrape_book\<close>: the dict it returns is the name of the book and \<open>is_new\<close> here, and
  \<open>None\<close> when the page could not be fetched or parsed.
\<close>

definition scrape_book :: "env \<Rightarrow> url \<Rightarrow> state \<Rightarrow> (string \<times> bool) option \<times> state" where
  "scrape_book env book_url s =
     (case fetch_page env book_url s of
        (Inl e, s1) \<Rightarrow> (None, s1\<lparr>failed := failed s1 + 1\<rparr>)
      | (Inr txt, s1) \<Rightarrow>
          (case parse_book_detail_page env txt book_url of
             Some book \<Rightarrow>
               (let book = book\<lparr>content_hash :=
                             Some (compute_content_hash (repr_fraction env) book)\<rparr>;
                    (is_new, s2) = upsert_book book s1
                in (Some (name book, is_new), s2\<lparr>successful := successful s2 + 1\<rparr>))
           | None \<Rightarrow> (None, s1\<lparr>failed := failed s1 + 1\<rparr>)))"

text \<open>\<open>scrape_catalog_page\<close>: any exception of the fetch gives \<open>([], None)\<close>.\<close>

definition scrape_catalog_page :: "env \<Rightarrow> url \<Rightarrow> state \<Rightarrow> (url list \<times> url option) \<times> state" where
  "scrape_catalog_page env page_url s =
     (case fetch_page env page_url s of
        (Inr txt, s1) \<Rightarrow>
          ((parse_book_list_page env txt page_url, get_next_page_url env txt page_url), s1)
      | (Inl e, s1) \<Rightarrow> (([], None), s1))"

text \<open>
  \<open>asyncio.gather\<close> over the \<open>scrape_book\<close> tasks of one page, run here in the order of
  the list.
\<close>

fun gather_scrape_book :: "env \<Rightarrow> url list \<Rightarrow> state \<Rightarrow> (string \<times> bool) option list \<times> state" where
  "gather_scrape_book env [] s = ([], s)"
| "gather_scrape_book env (book_url # book_urls) s =
     (case scrape_book env book_url s of
        (result, s1) \<Rightarrow>
          (case gather_scrape_book env book_urls s1 of
             (results, s2) \<Rightarrow> (result # results, s2)))"

definition save_checkpoint :: "CrawlCheckpoint \<Rightarrow> state \<Rightarrow> state" where
  "save_checkpoint checkpoint s =
     s\<lparr>checkpoints := (checkpoints s)(checkpoint_id checkpoint \<mapsto> checkpoint)\<rparr>"

definition get_checkpoint :: "string \<Rightarrow> state \<Rightarrow> CrawlCheckpoint option" where
  "get_checkpoint cid s = checkpoints s cid"

text \<open>The truth value of an optional string: \<open>None\<close> and the empty string are falsy.\<close>

definition truthy :: "string option \<Rightarrow> bool" where
  "truthy x = (case x of None \<Rightarrow> False | Some v \<Rightarrow> v \<noteq> [])"

text \<open>
  The loop \<open>while current_page_url:\<close> of \<open>scrape_all_books\<close>.  A site whose next-page
  links never end keeps it running, so the loop has fuel, one unit for each catalogue
  page: \<open>Inr (current_page_url, s)\<close> is the loop left by its condition or by \<open>break\<close>,
  \<open>Inl s\<close> is the loop stopped from outside when it is about to begin a page with no
  fuel left, that is, the run interrupted after \<open>fuel\<close> pages, each with its checkpoint
  saved, in the state \<open>s\<close>.
\<close>

fun crawl_pages :: "env \<Rightarrow> nat \<Rightarrow> url option \<Rightarrow> state \<Rightarrow> state + (url option \<times> state)" where
  "crawl_pages env 0 current_page_url s =
     (if truthy current_page_url then Inl s else Inr (current_page_url, s))"
| "crawl_pages env (Suc fuel) current_page_url s =
     (case current_page_url of
        None \<Rightarrow> Inr (current_page_url, s)
      | Some page_url \<Rightarrow>
          if page_url = [] then Inr (current_page_url, s)
          else
            (case scrape_catalog_page env page_url s of
               ((book_urls, next_page_url), s1) \<Rightarrow>
                 if book_urls = [] then Inr (current_page_url, s1)
                 else
                   (case gather_scrape_book env book_urls s1 of
                      (results, s2) \<Rightarrow>
                        (let s3 = s2\<lparr>total_books :=
                                      total_books s2 + length (filter (\<lambda>r. r \<noteq> None) results)\<rparr>;
                             (now, s4) = utcnow env s3;
                             checkpoint =
                               \<lparr> checkpoint_id = ''main_crawl'',
                                 last_page_url = page_url,
                                 last_book_url = Some (last book_urls),
                                 total_books_crawled = total_books s4,
                                 timestamp = now,
                                 status = (if truthy next_page_url then PARTIAL else SUCCESS),
                                 id_cp = None \<rparr>;
                             s5 = save_checkpoint checkpoint s4;
                             s6 = sleep (1 / 2) s5
                         in crawl_pages env fuel next_page_url s6))))"

text \<open>
  \<open>scrape_all_books\<close>.  An interrupted run (\<open>Inl\<close>) ends in the loop and writes no final
  checkpoint; a run that leaves the loop writes it and returns (\<open>Inr\<close>).  The summary
  that is logged at the end is not modelled.
\<close>

definition scrape_all_books :: "env \<Rightarrow> nat \<Rightarrow> url option \<Rightarrow> bool \<Rightarrow> state \<Rightarrow> state + state" where
  "scrape_all_books env fuel start_url resume s =
     (let (now, s) = utcnow env s;
          s = s\<lparr>start_time := Some now\<rparr>;
          (start_url, s) =
            (if resume then
               (case get_checkpoint ''main_crawl'' s of
                  Some checkpoint \<Rightarrow>
                    (Some (last_page_url checkpoint),
                     s\<lparr>total_books := total_books_crawled checkpoint\<rparr>)
                | None \<Rightarrow> (start_url, s))
             else (start_url, s));
          start_url =
            (if \<not> truthy start_url then target_url env @ ''/catalogue/page-1.html''
             else the start_url)
      in case crawl_pages env fuel (Some start_url) s of
           Inl s1 \<Rightarrow> Inl s1
         | Inr (current_page_url, s1) \<Rightarrow>
             (let (now, s2) = utcnow env s1;
                  checkpoint =
                    \<lparr> checkpoint_id = ''main_crawl'',
                      last_page_url = py_or current_page_url start_url,
                      last_book_url = None,
                      total_books_crawled = total_books s2,
                      timestamp = now,
                      status = SUCCESS,
                      id_cp = None \<rparr>;
                  s3 = save_checkpoint checkpoint s2;
                  (now, s4) = utcnow env s3
              in Inr (s4\<lparr>end_time := Some now\<rparr>)))"

section \<open>A small site to run the crawl on\<close>

text \<open>
  Two catalogue pages: the first lists two books and links to the second, the second
  lists one book and is the last.  Every other URL answers 404.  The text of a page is
  its URL, from which the parser functions read what the page lists.
\<close>

definition page_1 :: url where
  "page_1 = ''http://books/catalogue/page-1.html''"

definition page_2 :: url where
  "page_2 = ''http://books/catalogue/page-2.html''"

definition book_a :: url where
  "book_a = ''http://books/a''"

definition book_b :: url where
  "book_b = ''http://books/b''"

definition book_c :: url where
  "book_c = ''http://books/c''"

definition a_book :: "string \<Rightarrow> url \<Rightarrow> Book" where
  "a_book title u =
     \<lparr> name = title, description = None, category = ''Fiction'',
       price_excl_tax = Finite 50, price_incl_tax = Finite 50,
       availability = ''In stock (10 available)'', num_available = 10, num_reviews = 5,
       rating = THREE, image_url = ''http://books/cover.jpg'', source_url = u,
       crawl_timestamp = 0, crawl_status = SUCCESS, raw_html = None,
       content_hash = None, id_bk = None \<rparr>"

text \<open>
  The \<open>repr\<close> of a positive price with at most two decimals that is not a whole number:
  its digits without a trailing zero, as in \<open>51.77\<close> and \<open>51.7\<close>.
\<close>

definition repr_price :: "real \<Rightarrow> string" where
  "repr_price m =
     (let n = nat (round_half_even (m * 100))
      in str_nat (n div 100) @ ''.''
         @ (if n mod 10 = 0 then [digit_char (n mod 100 div 10)]
            else [digit_char (n mod 100 div 10), digit_char (n mod 10)]))"

definition site :: env where
  "site =
     \<lparr> client_get = (\<lambda>k u.
         if u = page_1 \<or> u = page_2 \<or> u = book_a \<or> u = book_b \<or> u = book_c
         then Inr (Response 200 u) else Inr (Response 404 ''Not Found'')),
       parse_book_list_page = (\<lambda>txt u.
         if txt = page_1 then [book_a, book_b] else if txt = page_2 then [book_c] else []),
       get_next_page_url = (\<lambda>txt u. if txt = page_1 then Some page_2 else None),
       parse_book_detail_page = (\<lambda>txt u. Some (a_book ''A Book'' u)),
       repr_fraction = repr_price,
       clock = (\<lambda>k. k),
       target_url = ''http://books'' \<rparr>"

text \<open>The same site while its second catalogue page answers 500.\<close>

definition site_page_2_down :: env where
  "site_page_2_down =
     site\<lparr>client_get := (\<lambda>k u.
       if u = page_2 then Inr (Response 500 ''Server Error'') else client_get site k u)\<rparr>"

text \<open>The same site while the first two requests of the process cannot connect.\<close>

definition site_flaky :: env where
  "site_flaky =
     site\<lparr>client_get := (\<lambda>k u. if k < 2 then Inl ConnectError else client_get site k u)\<rparr>"

text \<open>A first process that crawls the site from the start, on an empty database.\<close>

definition first_process :: state where
  "first_process = BookScraper_init Map.empty Map.empty"

text \<open>
  The state of a run that is interrupted after it has saved the checkpoint of the first
  catalogue page (\<open>first_process\<close> if the run was not interrupted there), and the process
  that is started on the database the interrupted one leaves.
\<close>

definition interrupted_after_page_1 :: state where
  "interrupted_after_page_1 =
     (case scrape_all_books site 1 None False first_process of
        Inl s \<Rightarrow> s | Inr s \<Rightarrow> first_process)"

definition second_process :: state where
  "second_process =
     BookScraper_init (books interrupted_after_page_1) (checkpoints interrupted_after_page_1)"

text \<open>The same site for a process whose requests all fail with \<open>httpx.InvalidURL\<close>.\<close>

definition site_invalid_url :: env where
  "site_invalid_url = site\<lparr>client_get := (\<lambda>k u. Inl InvalidURL)\<rparr>"

text \<open>
  A book that is given away, as it is parsed from a page that shows both prices as
  \<open>0.00\<close>, and as it is parsed when the page shows the price with tax as \<open>-0.00\<close>
  (\<open>float('-0.00')\<close> is the negative zero, which the constraint \<open>ge=0\<close> admits).
\<close>

definition free_book :: Book where
  "free_book =
     (a_book ''A Light in the Attic'' book_a)
       \<lparr>price_excl_tax := Finite 0, price_incl_tax := Finite 0\<rparr>"

definition free_book_neg_zero :: Book where
  "free_book_neg_zero = free_book\<lparr>price_incl_tax := NegZero\<rparr>"

section \<open>Properties of the comparison\<close>

lemma compare_books_no_tracked_change:
  assumes "float_eq (price_incl_tax old_book) (price_incl_tax new_book)"
    and "num_available old_book = num_available new_book"
    and "num_reviews old_book = num_reviews new_book"
    and "content_hash old_book \<noteq> content_hash new_book"
  shows "compare_books clk old_book new_book =
     [\<lparr> book_id = py_or (id_bk old_book) (source_url old_book), book_name = name old_book,
         change_type = CONTENT_CHANGE, change_timestamp = clk 0,
         old_value = None, new_value = None,
         description_cl = Some (''Content changed for '' @ [CHR 0x27] @ name old_book
            @ [CHR 0x27] @ '' (rating or other field)''),
         id_cl = None \<rparr>]"
  using assms by (simp add: compare_books_def Let_def)

lemma compare_books_generic_alone:
  assumes "g \<in> set (compare_books clk old_book new_book)" and "is_generic g"
  shows "compare_books clk old_book new_book = [g]"
  using assms by (auto simp add: compare_books_def Let_def is_generic_def split: if_splits)

lemma compare_books_length_le_3: "length (compare_books clk old_book new_book) \<le> 3"
  by (simp add: compare_books_def Let_def)

lemma compare_books_change_type:
  assumes "e \<in> set (compare_books clk old_book new_book)"
  shows "change_type e = PRICE_CHANGE \<or> change_type e = AVAILABILITY_CHANGE
         \<or> change_type e = CONTENT_CHANGE"
  using assms by (auto simp add: compare_books_def Let_def split: if_splits)

text \<open>
  C1.  When the fingerprints of the two snapshots differ and their \<open>price_incl_tax\<close>,
  \<open>num_available\<close> and \<open>num_reviews\<close> are equal (\<open>==\<close>), \<open>compare_books\<close> returns exactly one
  entry, the generic \<open>content_change\<close> entry without \<open>old_value\<close> and \<open>new_value\<close>.  For
  every pair of snapshots, a generic entry in the result is the whole result: no entry
  for a tracked field stands beside it.
\<close>

theorem compare_books_generic_event:
  "(content_hash old_book \<noteq> content_hash new_book
      \<and> float_eq (price_incl_tax old_book) (price_incl_tax new_book)
      \<and> num_available old_book = num_available new_book
      \<and> num_reviews old_book = num_reviews new_book
    \<longrightarrow> (\<exists>e. compare_books clk old_book new_book = [e] \<and> is_generic e))
   \<and> (\<forall>g \<in> set (compare_books clk old_book new_book).
         is_generic g \<longrightarrow>
           compare_books clk old_book new_book = [g]
           \<and> (\<forall>f \<in> set (compare_books clk old_book new_book). \<not> is_field_specific f))"
proof (intro conjI impI ballI)
  assume "content_hash old_book \<noteq> content_hash new_book
      \<and> float_eq (price_incl_tax old_book) (price_incl_tax new_book)
      \<and> num_available old_book = num_available new_book
      \<and> num_reviews old_book = num_reviews new_book"
  then show "\<exists>e. compare_books clk old_book new_book = [e] \<and> is_generic e"
    by (simp add: compare_books_no_tracked_change is_generic_def)
next
  fix g
  assume g: "g \<in> set (compare_books clk old_book new_book)" "is_generic g"
  then show only: "compare_books clk old_book new_book = [g]"
    by (rule compare_books_generic_alone)
  fix f
  assume "f \<in> set (compare_books clk old_book new_book)"
  with only have "f = g" by simp
  with g(2) show "\<not> is_field_specific f"
    by (simp add: is_generic_def is_field_specific_def)
qed

theorem compare_books_generic_event_witness:
  "content_hash (a_book ''A Book'' book_a\<lparr>content_hash := Some ''h1''\<rparr>)
     \<noteq> content_hash (a_book ''A Book'' book_a\<lparr>rating := FOUR, content_hash := Some ''h2''\<rparr>)
   \<and> (\<exists>e. compare_books (\<lambda>k. k) (a_book ''A Book'' book_a\<lparr>content_hash := Some ''h1''\<rparr>)
             (a_book ''A Book'' book_a\<lparr>rating := FOUR, content_hash := Some ''h2''\<rparr>) = [e]
          \<and> is_generic e)"
  using compare_books_generic_event
    [of "a_book ''A Book'' book_a\<lparr>content_hash := Some ''h1''\<rparr>"
        "a_book ''A Book'' book_a\<lparr>rating := FOUR, content_hash := Some ''h2''\<rparr>" "\<lambda>k. k"]
  by (simp add: a_book_def)

text \<open>
  C5.  An old snapshot with \<open>price_incl_tax = 50.00\<close>, \<open>num_available = 10\<close>,
  \<open>num_reviews = 5\<close> and a new one with \<open>price_incl_tax = 45.00\<close>, \<open>num_available = 10\<close>,
  \<open>num_reviews = 5\<close> and another fingerprint give exactly one entry, of the kind
  \<open>price_change\<close>, whose \<open>old_value\<close> is \<open>{"price_incl_tax": 50.0}\<close> and whose
  \<open>new_value\<close> is \<open>{"price_incl_tax": 45.0}\<close>; its description reads the two prices with
  two decimals.
\<close>

theorem compare_books_price_scenario:
  assumes "price_incl_tax old_book = Finite 50" and "num_available old_book = 10"
    and "num_reviews old_book = 5"
    and "price_incl_tax new_book = Finite 45" and "num_available new_book = 10"
    and "num_reviews new_book = 5"
    and "content_hash old_book \<noteq> content_hash new_book"
  shows "\<exists>e. compare_books clk old_book new_book = [e]
       \<and> change_type e = PRICE_CHANGE
       \<and> old_value e = Some [(''price_incl_tax'', PyFloat (Finite 50))]
       \<and> new_value e = Some [(''price_incl_tax'', PyFloat (Finite 45))]
       \<and> description_cl e =
           Some (''Price changed from '' @ [CHR 0xA3] @ ''50.00 to '' @ [CHR 0xA3] @ ''45.00'')"
proof -
  have "fmt_2f (Finite 50) = ''50.00''" and "fmt_2f (Finite 45) = ''45.00''"
    by (simp_all add: fmt_2f_def round_half_even_def str_nat.simps digit_char_def)
  with assms show ?thesis
    by (simp add: compare_books_def Let_def)
qed

theorem compare_books_price_scenario_witness:
  "\<exists>e. compare_books (\<lambda>k. k) (a_book ''Test Book'' book_a\<lparr>content_hash := Some ''old_hash_123''\<rparr>)
          (a_book ''Test Book'' book_a
             \<lparr>price_excl_tax := Finite 45, price_incl_tax := Finite 45, content_hash := Some ''new_hash_456''\<rparr>) = [e]
       \<and> change_type e = PRICE_CHANGE
       \<and> old_value e = Some [(''price_incl_tax'', PyFloat (Finite 50))]
       \<and> new_value e = Some [(''price_incl_tax'', PyFloat (Finite 45))]"
proof -
  have "\<exists>e. compare_books (\<lambda>k. k) (a_book ''Test Book'' book_a\<lparr>content_hash := Some ''old_hash_123''\<rparr>)
          (a_book ''Test Book'' book_a
             \<lparr>price_excl_tax := Finite 45, price_incl_tax := Finite 45, content_hash := Some ''new_hash_456''\<rparr>) = [e]
       \<and> change_type e = PRICE_CHANGE
       \<and> old_value e = Some [(''price_incl_tax'', PyFloat (Finite 50))]
       \<and> new_value e = Some [(''price_incl_tax'', PyFloat (Finite 45))]
       \<and> description_cl e =
           Some (''Price changed from '' @ [CHR 0xA3] @ ''50.00 to '' @ [CHR 0xA3] @ ''45.00'')"
    by (rule compare_books_price_scenario) (simp_all add: a_book_def)
  then show ?thesis by blast
qed

text \<open>
  C8.  Two runs of \<open>compare_books\<close> on the same two snapshots return the same entries,
  in the same order, whatever the clock reads in either run: the same book, kind,
  \<open>old_value\<close>, \<open>new_value\<close> and description.  (Only \<open>change_timestamp\<close>, the time of
  the run, can differ.)
\<close>

theorem compare_books_twice:
  "map event_content (compare_books clk1 old_book new_book)
     = map event_content (compare_books clk2 old_book new_book)"
  by (simp add: compare_books_def Let_def event_content_def)

theorem compare_books_twice_witness:
  "compare_books (\<lambda>k. k) (a_book ''A Book'' book_a) (a_book ''A Book'' book_a\<lparr>num_reviews := 6\<rparr>)
     \<noteq> compare_books (\<lambda>k. k + 60) (a_book ''A Book'' book_a) (a_book ''A Book'' book_a\<lparr>num_reviews := 6\<rparr>)
   \<and> map event_content
        (compare_books (\<lambda>k. k) (a_book ''A Book'' book_a) (a_book ''A Book'' book_a\<lparr>num_reviews := 6\<rparr>))
     = map event_content
        (compare_books (\<lambda>k. k + 60) (a_book ''A Book'' book_a) (a_book ''A Book'' book_a\<lparr>num_reviews := 6\<rparr>))"
proof -
  have "compare_books (\<lambda>k. k) (a_book ''A Book'' book_a) (a_book ''A Book'' book_a\<lparr>num_reviews := 6\<rparr>)
     \<noteq> compare_books (\<lambda>k. k + 60) (a_book ''A Book'' book_a) (a_book ''A Book'' book_a\<lparr>num_reviews := 6\<rparr>)"
    by (simp add: compare_books_def Let_def a_book_def)
  then show ?thesis
    using compare_books_twice
      [of "\<lambda>k. k" "a_book ''A Book'' book_a" "a_book ''A Book'' book_a\<lparr>num_reviews := 6\<rparr>"
          "\<lambda>k. k + 60"]
    by blast
qed

text \<open>
  C9.  When the fingerprints of the two snapshots differ, the result of \<open>compare_books\<close> is
  not empty: every tracked field that differs has its entry (of the kind \<open>price_change\<close>
  for the price, \<open>availability_change\<close> for the number available, \<open>content_change\<close> for
  the number of reviews, each with the old and the new value), and when no tracked field
  differs the result is the generic \<open>content_change\<close> entry.
\<close>

theorem compare_books_nonempty:
  assumes "content_hash old_book \<noteq> content_hash new_book"
  shows "compare_books clk old_book new_book \<noteq> []
    \<and> (\<not> float_eq (price_incl_tax old_book) (price_incl_tax new_book) \<longrightarrow>
         (\<exists>e \<in> set (compare_books clk old_book new_book).
            change_type e = PRICE_CHANGE \<and> is_field_specific e))
    \<and> (num_available old_book \<noteq> num_available new_book \<longrightarrow>
         (\<exists>e \<in> set (compare_books clk old_book new_book).
            change_type e = AVAILABILITY_CHANGE \<and> is_field_specific e))
    \<and> (num_reviews old_book \<noteq> num_reviews new_book \<longrightarrow>
         (\<exists>e \<in> set (compare_books clk old_book new_book).
            change_type e = CONTENT_CHANGE \<and> is_field_specific e))
    \<and> (float_eq (price_incl_tax old_book) (price_incl_tax new_book)
         \<and> num_available old_book = num_available new_book
         \<and> num_reviews old_book = num_reviews new_book \<longrightarrow>
         (\<exists>e. compare_books clk old_book new_book = [e] \<and> is_generic e))"
  using assms
  by (simp add: compare_books_def Let_def is_field_specific_def is_generic_def)

theorem compare_books_nonempty_witness:
  "content_hash (a_book ''A Book'' book_a\<lparr>content_hash := Some ''h1''\<rparr>)
     \<noteq> content_hash (a_book ''A Book'' book_a\<lparr>num_available := 3, content_hash := Some ''h2''\<rparr>)
   \<and> compare_books (\<lambda>k. k) (a_book ''A Book'' book_a\<lparr>content_hash := Some ''h1''\<rparr>)
        (a_book ''A Book'' book_a\<lparr>num_available := 3, content_hash := Some ''h2''\<rparr>) \<noteq> []
   \<and> (\<exists>e \<in> set (compare_books (\<lambda>k. k) (a_book ''A Book'' book_a\<lparr>content_hash := Some ''h1''\<rparr>)
        (a_book ''A Book'' book_a\<lparr>num_available := 3, content_hash := Some ''h2''\<rparr>)).
          change_type e = AVAILABILITY_CHANGE \<and> is_field_specific e)"
  using compare_books_nonempty
    [of "a_book ''A Book'' book_a\<lparr>content_hash := Some ''h1''\<rparr>"
        "a_book ''A Book'' book_a\<lparr>num_available := 3, content_hash := Some ''h2''\<rparr>" "\<lambda>k. k"]
  by (simp add: a_book_def)

text \<open>
  C10.  Every entry \<open>compare_books\<close> returns has the kind \<open>price_change\<close>,
  \<open>availability_change\<close> or \<open>content_change\<close>, never \<open>new_book\<close> or \<open>deleted\<close>, and the
  result has at most 4 entries.
\<close>

theorem compare_books_kinds:
  "(\<forall>e \<in> set (compare_books clk old_book new_book).
      change_type e \<in> {PRICE_CHANGE, AVAILABILITY_CHANGE, CONTENT_CHANGE}
      \<and> change_type e \<noteq> NEW_BOOK \<and> change_type e \<noteq> DELETED)
   \<and> length (compare_books clk old_book new_book) \<le> 4"
proof (intro conjI ballI)
  fix e
  assume "e \<in> set (compare_books clk old_book new_book)"
  then have kind: "change_type e = PRICE_CHANGE \<or> change_type e = AVAILABILITY_CHANGE
      \<or> change_type e = CONTENT_CHANGE"
    by (rule compare_books_change_type)
  then show "change_type e \<in> {PRICE_CHANGE, AVAILABILITY_CHANGE, CONTENT_CHANGE}" by auto
  from kind show "change_type e \<noteq> NEW_BOOK" by auto
  from kind show "change_type e \<noteq> DELETED" by auto
next
  have "length (compare_books clk old_book new_book) \<le> 3"
    by (rule compare_books_length_le_3)
  then show "length (compare_books clk old_book new_book) \<le> 4" by simp
qed

theorem compare_books_kinds_witness:
  "map change_type
     (compare_books (\<lambda>k. k) (a_book ''A Book'' book_a)
        (a_book ''A Book'' book_a\<lparr>price_incl_tax := Finite 45, num_available := 3, num_reviews := 6\<rparr>))
     = [PRICE_CHANGE, AVAILABILITY_CHANGE, CONTENT_CHANGE]
   \<and> length (compare_books (\<lambda>k. k) (a_book ''A Book'' book_a)
        (a_book ''A Book'' book_a\<lparr>price_incl_tax := Finite 45, num_available := 3, num_reviews := 6\<rparr>)) \<le> 4"
proof -
  have "map change_type
     (compare_books (\<lambda>k. k) (a_book ''A Book'' book_a)
        (a_book ''A Book'' book_a\<lparr>price_incl_tax := Finite 45, num_available := 3, num_reviews := 6\<rparr>))
     = [PRICE_CHANGE, AVAILABILITY_CHANGE, CONTENT_CHANGE]"
    by (simp add: compare_books_def Let_def a_book_def)
  then show ?thesis
    using compare_books_kinds
      [of "\<lambda>k. k" "a_book ''A Book'' book_a"
          "a_book ''A Book'' book_a\<lparr>price_incl_tax := Finite 45, num_available := 3, num_reviews := 6\<rparr>"]
    by blast
qed

section \<open>Properties of the content fingerprint\<close>

lemma replicate_numeral_Cons:
  "replicate (numeral k) x = x # replicate (pred_numeral k) x"
  by (simp add: numeral_eq_Suc)

lemmas json_defs =
  json_dumps_sort_keys_def content_def json_string_def json_escape_char_def
  json_float_def float_repr_abs_def str_int_def str_nat.simps digit_char_def
  less_char_def less_eq_char_def

lemmas compress_defs =
  compress_def K256_def next_w_def T1_def T2_def add32_def rotr_def shr_def
  Ch_def Maj_def Sigma0_def Sigma1_def sigma0_def sigma1_def

text \<open>The text that is hashed for the two books.\<close>

lemma free_book_json:
  "json_dumps_sort_keys rf (content free_book) =
     ''{\"availability\": \"In stock (10 available)\", \"name\": \"A Light in the Attic\", \"num_available\": 10, \"num_reviews\": 5, \"price_excl_tax\": 0.0, \"price_incl_tax\": 0.0, \"rating\": \"Three\"}''"
  by (simp add: free_book_def a_book_def json_defs)

lemma free_book_neg_zero_json:
  "json_dumps_sort_keys rf (content free_book_neg_zero) =
     ''{\"availability\": \"In stock (10 available)\", \"name\": \"A Light in the Attic\", \"num_available\": 10, \"num_reviews\": 5, \"price_excl_tax\": 0.0, \"price_incl_tax\": -0.0, \"rating\": \"Three\"}''"
  by (simp add: free_book_neg_zero_def free_book_def a_book_def json_defs)

text \<open>
  The two texts fill three blocks of 64 bytes each, of which the first two are the same.
\<close>

lemma free_book_blocks:
  "sha256 (utf8_encode (json_dumps_sort_keys rf (content free_book))) =
     compress (compress (compress H256
       [2065850742, 1634298977, 1651076201, 1954095674, 539117934, 544437359,
        1667964968, 825237601, 1986095468, 1633840229, 690105376, 577659245,
        1696741920, 574693452, 1768384628, 543780384])
       [1952998688, 1098151017, 1663183904, 577664365, 1600222817, 1768710498,
        1818567226, 540094508, 539127413, 1834971749, 1986618743, 1931622944,
        892084258, 1886546275, 1700750712, 1668046708])
       [1635263034, 540028464, 740303472, 1919509349, 1600745059, 1818195041,
        2015509024, 808333356, 539128417, 1953066599, 574234658, 1416131173,
        1696759168, 0, 0, 1432]"
  by (simp add: free_book_json sha256_def utf8_encode_def pad_def sha256_blocks.simps
        replicate_numeral_Cons)

lemma free_book_neg_zero_blocks:
  "sha256 (utf8_encode (json_dumps_sort_keys rf (content free_book_neg_zero))) =
     compress (compress (compress H256
       [2065850742, 1634298977, 1651076201, 1954095674, 539117934, 544437359,
        1667964968, 825237601, 1986095468, 1633840229, 690105376, 577659245,
        1696741920, 574693452, 1768384628, 543780384])
       [1952998688, 1098151017, 1663183904, 577664365, 1600222817, 1768710498,
        1818567226, 540094508, 539127413, 1834971749, 1986618743, 1931622944,
        892084258, 1886546275, 1700750712, 1668046708])
       [1635263034, 540028464, 740303472, 1919509349, 1600745059, 1818195041,
        2015509024, 758132272, 740303474, 1635019118, 1730296352, 575957106,
        1701126781, 2147483648, 0, 1440]"
  by (simp add: free_book_neg_zero_json sha256_def utf8_encode_def pad_def sha256_blocks.simps
        replicate_numeral_Cons)

lemma compress_block_1:
  "compress H256
     [2065850742, 1634298977, 1651076201, 1954095674, 539117934, 544437359,
        1667964968, 825237601, 1986095468, 1633840229, 690105376, 577659245,
        1696741920, 574693452, 1768384628, 543780384] =
     [2186807514, 1812854098, 35529052, 3758741567, 3831369383, 2450149654,
        2217005747, 2502545471]"
  by (simp add: compress_defs H256_def)

lemma compress_block_2:
  "compress
     [2186807514, 1812854098, 35529052, 3758741567, 3831369383, 2450149654,
        2217005747, 2502545471]
     [1952998688, 1098151017, 1663183904, 577664365, 1600222817, 1768710498,
        1818567226, 540094508, 539127413, 1834971749, 1986618743, 1931622944,
        892084258, 1886546275, 1700750712, 1668046708] =
     [3943271603, 3629311986, 2505430136, 2044325562, 1023656561, 1951221732,
        1526682666, 3019616888]"
  by (simp add: compress_defs)

lemma compress_block_3:
  "compress
     [3943271603, 3629311986, 2505430136, 2044325562, 1023656561, 1951221732,
        1526682666, 3019616888]
     [1635263034, 540028464, 740303472, 1919509349, 1600745059, 1818195041,
        2015509024, 808333356, 539128417, 1953066599, 574234658, 1416131173,
        1696759168, 0, 0, 1432] =
     [2200981132, 948162633, 3279292626, 1299836254, 2829286001, 3946472910,
        679849535, 208532195]"
  by (simp add: compress_defs)

lemma compress_block_3_neg_zero:
  "compress
     [3943271603, 3629311986, 2505430136, 2044325562, 1023656561, 1951221732,
        1526682666, 3019616888]
     [1635263034, 540028464, 740303472, 1919509349, 1600745059, 1818195041,
        2015509024, 758132272, 740303474, 1635019118, 1730296352, 575957106,
        1701126781, 2147483648, 0, 1440] =
     [557783735, 1236064470, 2514841295, 982183961, 878130030, 829923355,
        1401684248, 2157893740]"
  by (simp add: compress_defs)

lemma free_book_hash:
  "compute_content_hash rf free_book =
     ''83304e8c3883d049c37608d24d79ed5ea8a37a71eb3a65ce2885ae3f0c6df2e3''"
  by (simp add: compute_content_hash_def sha256_hexdigest_def free_book_blocks
        compress_block_1 compress_block_2 compress_block_3 hex32_def hex_digit_def)

lemma free_book_neg_zero_hash:
  "compute_content_hash rf free_book_neg_zero =
     ''213f1ab749acd8d695e56ecf3a8af0193457336e3177a01b538c0118809ed86c''"
  by (simp add: compute_content_hash_def sha256_hexdigest_def free_book_neg_zero_blocks
        compress_block_1 compress_block_2 compress_block_3_neg_zero hex32_def hex_digit_def)

text \<open>Floats that are equal and agree on being the negative zero are the same float.\<close>

lemma float_eq_same_zero:
  assumes "float_eq x y" and "(x = NegZero) = (y = NegZero)"
  shows "x = y"
  using assms by (cases x; cases y) auto

text \<open>
  C4, as the code has it.  The fingerprint is a function of the tracked fields alone, of
  the two prices as they are written: two books with the same \<open>name\<close>, \<open>availability\<close>,
  \<open>num_available\<close>, \<open>num_reviews\<close> and \<open>rating\<close>, whose \<open>price_incl_tax\<close> are equal
  (\<open>==\<close>) and whose \<open>price_excl_tax\<close> are equal, a zero having the same sign in both
  books, have the same fingerprint, whatever their other fields are.
\<close>

theorem compute_content_hash_tracked_fields:
  assumes "name a = name b"
    and "float_eq (price_incl_tax a) (price_incl_tax b)"
    and "(price_incl_tax a = NegZero) = (price_incl_tax b = NegZero)"
    and "float_eq (price_excl_tax a) (price_excl_tax b)"
    and "(price_excl_tax a = NegZero) = (price_excl_tax b = NegZero)"
    and "availability a = availability b"
    and "num_available a = num_available b"
    and "num_reviews a = num_reviews b"
    and "rating a = rating b"
  shows "compute_content_hash rf a = compute_content_hash rf b"
proof -
  from assms(2,3) have "price_incl_tax a = price_incl_tax b"
    by (rule float_eq_same_zero)
  moreover from assms(4,5) have "price_excl_tax a = price_excl_tax b"
    by (rule float_eq_same_zero)
  ultimately have "content a = content b"
    using assms by (simp add: content_def)
  then show ?thesis
    by (simp add: compute_content_hash_def)
qed

theorem compute_content_hash_tracked_fields_witness:
  "free_book
     \<noteq> free_book
         \<lparr>description := Some ''A story'', category := ''Poetry'',
          image_url := ''http://books/new.jpg'', crawl_timestamp := 7\<rparr>
   \<and> compute_content_hash repr_price
        (free_book
           \<lparr>description := Some ''A story'', category := ''Poetry'',
            image_url := ''http://books/new.jpg'', crawl_timestamp := 7\<rparr>)
     = ''83304e8c3883d049c37608d24d79ed5ea8a37a71eb3a65ce2885ae3f0c6df2e3''"
proof -
  have "free_book
     \<noteq> free_book
         \<lparr>description := Some ''A story'', category := ''Poetry'',
          image_url := ''http://books/new.jpg'', crawl_timestamp := 7\<rparr>"
    by (simp add: free_book_def a_book_def)
  moreover have "compute_content_hash repr_price free_book
     = compute_content_hash repr_price
         (free_book
            \<lparr>description := Some ''A story'', category := ''Poetry'',
             image_url := ''http://books/new.jpg'', crawl_timestamp := 7\<rparr>)"
    by (rule compute_content_hash_tracked_fields) (simp_all add: free_book_def a_book_def)
  ultimately show ?thesis
    by (simp add: free_book_hash)
qed

text \<open>
  The counterexample to C4 as it is stated: the two books agree (\<open>==\<close>) on every tracked
  field, the price with tax being \<open>0.0\<close> in one and \<open>-0.0\<close> in the other, and their
  fingerprints differ.
\<close>

theorem compute_content_hash_neg_zero_counterexample:
  "name free_book = name free_book_neg_zero
   \<and> float_eq (price_incl_tax free_book) (price_incl_tax free_book_neg_zero)
   \<and> float_eq (price_excl_tax free_book) (price_excl_tax free_book_neg_zero)
   \<and> availability free_book = availability free_book_neg_zero
   \<and> num_available free_book = num_available free_book_neg_zero
   \<and> num_reviews free_book = num_reviews free_book_neg_zero
   \<and> rating free_book = rating free_book_neg_zero
   \<and> compute_content_hash repr_price free_book
       = ''83304e8c3883d049c37608d24d79ed5ea8a37a71eb3a65ce2885ae3f0c6df2e3''
   \<and> compute_content_hash repr_price free_book_neg_zero
       = ''213f1ab749acd8d695e56ecf3a8af0193457336e3177a01b538c0118809ed86c''
   \<and> compute_content_hash repr_price free_book
       \<noteq> compute_content_hash repr_price free_book_neg_zero"
  by (simp add: free_book_hash free_book_neg_zero_hash)
     (simp add: free_book_neg_zero_def free_book_def a_book_def)

section \<open>Properties of the fetcher\<close>

lemma fetch_page_body_raises:
  assumes "client_get env (n_requests s) u = Inl e"
  shows "fetch_page_body env u s =
     (Inl e, s\<lparr>io_trace := io_trace s @ [GET u], n_requests := Suc (n_requests s)\<rparr>)"
  using assms by (simp add: fetch_page_body_def Let_def)

lemma fetch_page_body_status:
  assumes "client_get env (n_requests s) u = Inr (Response code txt)"
    and "\<not> (200 \<le> code \<and> code \<le> 299)"
  shows "fetch_page_body env u s =
     (Inl (HTTPStatusError code),
      s\<lparr>io_trace := io_trace s @ [GET u], n_requests := Suc (n_requests s)\<rparr>)"
  using assms by (simp add: fetch_page_body_def Let_def)

text \<open>
  C3, as the code has it.  A fetch whose first attempt raises an exception that is not an
  \<open>httpx.HTTPError\<close> (as \<open>httpx.InvalidURL\<close> is) raises it after that one request,
  with no sleep and no second request.  A first attempt that is answered with a status
  outside 2xx, a 4xx as any other, is an \<open>HTTPStatusError\<close>, and the fetch sleeps 2
  seconds and sends the request again.
\<close>

theorem fetch_page_first_failure:
  "(client_get env (n_requests s) u = Inl e \<and> \<not> is_HTTPError e \<longrightarrow>
      fetch_page env u s =
        (Inl e, s\<lparr>io_trace := io_trace s @ [GET u], n_requests := Suc (n_requests s)\<rparr>))
   \<and> (client_get env (n_requests s) u = Inr (Response code txt)
        \<and> \<not> (200 \<le> code \<and> code \<le> 299) \<longrightarrow>
      fetch_page env u s =
        fetch_page_attempt env u 2
          (s\<lparr>n_requests := Suc (n_requests s), io_trace := io_trace s @ [GET u, SLEEP 2]\<rparr>))"
proof (intro conjI impI)
  assume h: "client_get env (n_requests s) u = Inl e \<and> \<not> is_HTTPError e"
  then have "\<not> retry_if_exception_type e"
    by (cases e) (simp_all add: retry_if_exception_type_def)
  with h show "fetch_page env u s =
        (Inl e, s\<lparr>io_trace := io_trace s @ [GET u], n_requests := Suc (n_requests s)\<rparr>)"
    unfolding fetch_page_def
    by (subst fetch_page_attempt.simps) (simp add: fetch_page_body_raises)
next
  assume h: "client_get env (n_requests s) u = Inr (Response code txt)
        \<and> \<not> (200 \<le> code \<and> code \<le> 299)"
  then have body: "fetch_page_body env u s =
     (Inl (HTTPStatusError code),
      s\<lparr>io_trace := io_trace s @ [GET u], n_requests := Suc (n_requests s)\<rparr>)"
    by (simp add: fetch_page_body_status)
  show "fetch_page env u s =
        fetch_page_attempt env u 2
          (s\<lparr>n_requests := Suc (n_requests s), io_trace := io_trace s @ [GET u, SLEEP 2]\<rparr>)"
    unfolding fetch_page_def
    by (subst fetch_page_attempt.simps)
       (simp add: body retry_if_exception_type_def stop_after_attempt_def
          wait_exponential_def sleep_def numeral_2_eq_2)
qed

theorem fetch_page_first_failure_witness:
  "client_get site_invalid_url (n_requests first_process) ''http://books:port/'' = Inl InvalidURL
   \<and> \<not> is_HTTPError InvalidURL
   \<and> fetch_page site_invalid_url ''http://books:port/'' first_process =
       (Inl InvalidURL,
        first_process\<lparr>io_trace := io_trace first_process @ [GET ''http://books:port/''],
                      n_requests := Suc (n_requests first_process)\<rparr>)"
proof -
  have h: "client_get site_invalid_url (n_requests first_process) ''http://books:port/'' = Inl InvalidURL
      \<and> \<not> is_HTTPError InvalidURL"
    by (simp add: site_invalid_url_def)
  with fetch_page_first_failure
    [of site_invalid_url first_process "''http://books:port/''" InvalidURL 0 "''''"]
  show ?thesis by blast
qed

text \<open>
  The counterexample to C3 as it is stated: a URL the site answers with 404 is requested
  three times, with two sleeps of 2 seconds, before the error is raised.
\<close>

theorem fetch_page_404_counterexample:
  "client_get site 0 ''http://books/missing'' = Inr (Response 404 ''Not Found'')
   \<and> fetch_page site ''http://books/missing'' first_process =
       (Inl (HTTPStatusError 404),
        first_process
          \<lparr>io_trace := [GET ''http://books/missing'', SLEEP 2, GET ''http://books/missing'',
                        SLEEP 2, GET ''http://books/missing''],
           n_requests := 3\<rparr>)"
  by (simp add: fetch_page_def fetch_page_attempt.simps fetch_page_body_def Let_def
      site_def page_1_def page_2_def book_a_def book_b_def book_c_def
      first_process_def BookScraper_init_def
      retry_if_exception_type_def stop_after_attempt_def wait_exponential_def sleep_def)

text \<open>
  C7 at a fetch that fails twice and then succeeds: the text of the third response is
  returned after three requests, and the two sleeps between them are both of 2 seconds
  (\<open>max(2, min(1 * 2 ** 0, 10))\<close> and \<open>max(2, min(1 * 2 ** 1, 10))\<close>): the second wait is
  not longer than the first.
\<close>

theorem fetch_page_two_failures:
  "fetch_page site_flaky page_1 first_process =
     (Inr page_1,
      first_process
        \<lparr>io_trace := [GET page_1, SLEEP 2, GET page_1, SLEEP 2, GET page_1],
         n_requests := 3\<rparr>)
   \<and> wait_exponential 1 2 10 1 = 2 \<and> wait_exponential 1 2 10 2 = 2"
  by (simp add: fetch_page_def fetch_page_attempt.simps fetch_page_body_def Let_def
      site_flaky_def site_def page_1_def
      first_process_def BookScraper_init_def
      retry_if_exception_type_def stop_after_attempt_def wait_exponential_def sleep_def)

text \<open>
  The waits of the decorator: 2, 2, 4, 8 and 10 seconds after the first five failed
  attempts, and between 2 and 10 seconds after any.
\<close>

lemma wait_exponential_values:
  "wait_exponential 1 2 10 1 = 2" "wait_exponential 1 2 10 2 = 2"
  "wait_exponential 1 2 10 3 = 4" "wait_exponential 1 2 10 4 = 8"
  "wait_exponential 1 2 10 5 = 10"
  by (simp_all add: wait_exponential_def)

lemma wait_exponential_bounds:
  "2 \<le> wait_exponential 1 2 10 n \<and> wait_exponential 1 2 10 n \<le> 10"
  by (simp add: wait_exponential_def)

text \<open>A fetch sends at most three requests.\<close>

lemma fetch_page_body_requests:
  "n_requests (snd (fetch_page_body env u s)) = Suc (n_requests s)"
  by (simp add: fetch_page_body_def Let_def split: sum.splits response.splits)

lemma fetch_page_attempt_requests:
  "n_requests (snd (fetch_page_attempt env u attempt_number s))
     \<le> n_requests s + (4 - attempt_number) \<or> 3 < attempt_number"
proof (induction env u attempt_number s rule: fetch_page_attempt.induct)
  case (1 env u attempt_number s)
  obtain r s1 where body: "fetch_page_body env u s = (r, s1)"
    by (cases "fetch_page_body env u s")
  with fetch_page_body_requests [of env u s] have s1: "n_requests s1 = Suc (n_requests s)"
    by simp
  show ?case
  proof (cases r)
    case (Inr page_text)
    with body s1 show ?thesis
      by (subst fetch_page_attempt.simps) (auto simp add: stop_after_attempt_def)
  next
    case (Inl e)
    show ?thesis
    proof (cases "\<not> retry_if_exception_type e \<or> stop_after_attempt 3 attempt_number")
      case True
      with body s1 Inl show ?thesis
        by (subst fetch_page_attempt.simps) (auto simp add: stop_after_attempt_def)
    next
      case False
      with "1.IH" body Inl
      have "n_requests (snd (fetch_page_attempt env u (attempt_number + 1)
               (sleep (wait_exponential 1 2 10 attempt_number) s1)))
            \<le> n_requests (sleep (wait_exponential 1 2 10 attempt_number) s1)
                + (4 - (attempt_number + 1)) \<or> 3 < attempt_number + 1"
        by simp
      with False body s1 Inl show ?thesis
        by (subst fetch_page_attempt.simps)
           (auto simp add: stop_after_attempt_def sleep_def)
    qed
  qed
qed

lemma fetch_page_requests:
  "n_requests (snd (fetch_page env u s)) \<le> n_requests s + 3"
  using fetch_page_attempt_requests [of env u 1 s] by (simp add: fetch_page_def)

section \<open>Runs of the crawl\<close>

lemma urls_differ:
  "page_1 \<noteq> page_2" "page_1 \<noteq> book_a" "page_1 \<noteq> book_b" "page_1 \<noteq> book_c"
  "page_2 \<noteq> page_1" "page_2 \<noteq> book_a" "page_2 \<noteq> book_b" "page_2 \<noteq> book_c"
  "book_a \<noteq> page_1" "book_a \<noteq> page_2" "book_a \<noteq> book_b" "book_a \<noteq> book_c"
  "book_b \<noteq> page_1" "book_b \<noteq> page_2" "book_b \<noteq> book_a" "book_b \<noteq> book_c"
  "book_c \<noteq> page_1" "book_c \<noteq> page_2" "book_c \<noteq> book_a" "book_c \<noteq> book_b"
  "page_1 \<noteq> []" "page_2 \<noteq> []" "book_a \<noteq> []" "book_b \<noteq> []" "book_c \<noteq> []"
  by (simp_all add: page_1_def page_2_def book_a_def book_b_def book_c_def)

lemma site_fields:
  "client_get site k page_1 = Inr (Response 200 page_1)"
  "client_get site k page_2 = Inr (Response 200 page_2)"
  "client_get site k book_a = Inr (Response 200 book_a)"
  "client_get site k book_b = Inr (Response 200 book_b)"
  "client_get site k book_c = Inr (Response 200 book_c)"
  "parse_book_list_page site page_1 u = [book_a, book_b]"
  "parse_book_list_page site page_2 u = [book_c]"
  "get_next_page_url site page_1 u = Some page_2"
  "get_next_page_url site page_2 u = None"
  "parse_book_detail_page site txt u = Some (a_book ''A Book'' u)"
  "clock site k = k"
  "target_url site @ ''/catalogue/page-1.html'' = page_1"
  by (simp_all add: site_def urls_differ) (simp add: page_1_def)

lemma site_page_2_down_fields:
  "client_get site_page_2_down k page_1 = Inr (Response 200 page_1)"
  "client_get site_page_2_down k page_2 = Inr (Response 500 ''Server Error'')"
  "client_get site_page_2_down k book_a = Inr (Response 200 book_a)"
  "client_get site_page_2_down k book_b = Inr (Response 200 book_b)"
  "parse_book_list_page site_page_2_down page_1 u = [book_a, book_b]"
  "get_next_page_url site_page_2_down page_1 u = Some page_2"
  "parse_book_detail_page site_page_2_down txt u = Some (a_book ''A Book'' u)"
  "clock site_page_2_down k = k"
  "target_url site_page_2_down @ ''/catalogue/page-1.html'' = page_1"
  by (simp_all add: site_page_2_down_def site_fields urls_differ)

lemma a_book_fields:
  "source_url (a_book title u) = u" "name (a_book title u) = title"
  by (simp_all add: a_book_def)

lemmas crawl_defs =
  scrape_all_books_def scrape_catalog_page_def scrape_book_def upsert_book_def
  save_checkpoint_def get_checkpoint_def truthy_def py_or_def utcnow_def sleep_def
  fetch_page_def fetch_page_attempt.simps fetch_page_body_def
  retry_if_exception_type_def stop_after_attempt_def wait_exponential_def
  urls_differ a_book_fields Let_def

lemma crawl_pages_numeral:
  "crawl_pages env (numeral k) current_page_url s
     = crawl_pages env (Suc (pred_numeral k)) current_page_url s"
  by (simp only: numeral_eq_Suc)

lemma interrupted_after_page_1_checkpoint:
  "checkpoints interrupted_after_page_1 ''main_crawl'' =
     Some \<lparr> checkpoint_id = ''main_crawl'', last_page_url = page_1,
            last_book_url = Some book_b, total_books_crawled = 2,
            timestamp = 1, status = PARTIAL, id_cp = None \<rparr>"
  by (simp add: interrupted_after_page_1_def first_process_def BookScraper_init_def
        crawl_defs site_fields)

text \<open>Fuel: a loop that is left with some fuel is left in the same way with more.\<close>

lemma crawl_pages_more_fuel:
  "crawl_pages env n current_page_url s = Inr r
   \<Longrightarrow> crawl_pages env (n + k) current_page_url s = Inr r"
proof (induction n arbitrary: current_page_url s)
  case 0
  then show ?case
    by (cases k) (auto simp add: truthy_def split: option.splits if_splits)
next
  case (Suc n)
  then show ?case
    by (auto simp add: Let_def split: option.splits if_splits prod.splits)
qed

lemma scrape_all_books_more_fuel:
  assumes "scrape_all_books env n start_url resume s = Inr r"
  shows "scrape_all_books env (n + k) start_url resume s = Inr r"
proof -
  obtain now0 s0 where u: "utcnow env s = (now0, s0)"
    by (cases "utcnow env s")
  obtain su s1 where st:
    "(if resume then
        (case get_checkpoint ''main_crawl'' (s0\<lparr>start_time := Some now0\<rparr>) of
           Some checkpoint \<Rightarrow>
             (Some (last_page_url checkpoint),
              s0\<lparr>start_time := Some now0, total_books := total_books_crawled checkpoint\<rparr>)
         | None \<Rightarrow> (start_url, s0\<lparr>start_time := Some now0\<rparr>))
      else (start_url, s0\<lparr>start_time := Some now0\<rparr>)) = (su, s1)"
    by fastforce
  obtain A where A:
    "(if \<not> truthy su then target_url env @ ''/catalogue/page-1.html'' else the su) = A"
    by blast
  from assms have "\<exists>cx. crawl_pages env n (Some A) s1 = Inr cx"
    by (simp add: scrape_all_books_def u st A Let_def split: sum.splits)
  then obtain cx where "crawl_pages env n (Some A) s1 = Inr cx" ..
  then have eq: "crawl_pages env (n + k) (Some A) s1 = crawl_pages env n (Some A) s1"
    by (simp add: crawl_pages_more_fuel)
  have "scrape_all_books env (n + k) start_url resume s
      = scrape_all_books env n start_url resume s"
    by (simp add: scrape_all_books_def u st A Let_def eq)
  with assms show ?thesis by simp
qed

lemma first_run_interrupted:
  "scrape_all_books site 1 None False first_process = Inl interrupted_after_page_1"
proof -
  have "\<exists>s. scrape_all_books site 1 None False first_process = Inl s"
    by (simp add: first_process_def BookScraper_init_def crawl_defs site_fields)
  then show ?thesis
    by (auto simp add: interrupted_after_page_1_def)
qed

lemma interrupted_after_page_1_trace:
  "io_trace interrupted_after_page_1 = [GET page_1, GET book_a, GET book_b, SLEEP (1 / 2)]"
  by (simp add: interrupted_after_page_1_def first_process_def BookScraper_init_def
        crawl_defs site_fields)

lemma second_process_eq:
  "second_process =
     \<lparr> total_books = 0, successful = 0, failed = 0, skipped = 0,
       start_time = None, end_time = None,
       books = books interrupted_after_page_1,
       checkpoints = checkpoints interrupted_after_page_1,
       io_trace = [], n_requests = 0, n_clock = 0 \<rparr>"
  by (simp add: second_process_def BookScraper_init_def)

lemma second_run:
  "\<exists>r. scrape_all_books site 2 None True second_process = Inr r
     \<and> io_trace r = [GET page_1, GET book_a, GET book_b, SLEEP (1 / 2),
                     GET page_2, GET book_c, SLEEP (1 / 2)]
     \<and> total_books r = 5"
  unfolding second_process_eq
  by (simp add: interrupted_after_page_1_checkpoint crawl_defs crawl_pages_numeral site_fields)

lemma run_page_2_down:
  "\<exists>r. scrape_all_books site_page_2_down 2 None False first_process = Inr r
     \<and> checkpoints r ''main_crawl'' =
          Some \<lparr> checkpoint_id = ''main_crawl'', last_page_url = page_2,
                 last_book_url = None, total_books_crawled = 2,
                 timestamp = 2, status = SUCCESS, id_cp = None \<rparr>
     \<and> io_trace r = [GET page_1, GET book_a, GET book_b, SLEEP (1 / 2),
                     GET page_2, SLEEP 2, GET page_2, SLEEP 2, GET page_2]"
  by (simp add: first_process_def BookScraper_init_def crawl_defs crawl_pages_numeral
        site_page_2_down_fields)

text \<open>Whenever the run returns, the checkpoint it leaves has the status \<open>success\<close>.\<close>

lemma final_checkpoint_status:
  assumes "scrape_all_books env fuel start_url resume s = Inr r"
  shows "\<exists>checkpoint. checkpoints r ''main_crawl'' = Some checkpoint
           \<and> status checkpoint = SUCCESS"
  using assms
  by (auto simp add: scrape_all_books_def Let_def utcnow_def save_checkpoint_def
        split: sum.splits prod.splits)

text \<open>
  C2 at a run that is interrupted after the checkpoint of the first catalogue page is
  saved, and a second process that resumes.  The first run has requested the first page
  and its two books; its checkpoint names the first page as \<open>last_page_url\<close>, with 2
  books crawled.  The second process, with any fuel from 2 on, starts at that page:
  it requests the first page and its two books again and counts them a second time, so
  that it ends with 5 books counted on a site of 3.
\<close>

theorem resume_fetches_checkpointed_page_again:
  "scrape_all_books site 1 None False first_process = Inl interrupted_after_page_1
   \<and> io_trace interrupted_after_page_1 = [GET page_1, GET book_a, GET book_b, SLEEP (1 / 2)]
   \<and> checkpoints interrupted_after_page_1 ''main_crawl'' =
       Some \<lparr> checkpoint_id = ''main_crawl'', last_page_url = page_1,
              last_book_url = Some book_b, total_books_crawled = 2,
              timestamp = 1, status = PARTIAL, id_cp = None \<rparr>
   \<and> (case scrape_all_books site (2 + k) None True second_process of
        Inl s \<Rightarrow> False
      | Inr s \<Rightarrow>
          io_trace s = [GET page_1, GET book_a, GET book_b, SLEEP (1 / 2),
                        GET page_2, GET book_c, SLEEP (1 / 2)]
          \<and> total_books s = 5)"
proof -
  obtain r where r: "scrape_all_books site 2 None True second_process = Inr r"
    and props: "io_trace r = [GET page_1, GET book_a, GET book_b, SLEEP (1 / 2),
                     GET page_2, GET book_c, SLEEP (1 / 2)]" "total_books r = 5"
    using second_run by blast
  from r have "scrape_all_books site (2 + k) None True second_process = Inr r"
    by (rule scrape_all_books_more_fuel)
  with props first_run_interrupted interrupted_after_page_1_trace
    interrupted_after_page_1_checkpoint
  show ?thesis by simp
qed

text \<open>
  C6 at a run in which the second catalogue page cannot be fetched.  With any fuel from
  2 on, the walk stops after three requests of that page, and the final checkpoint that
  is written names the page that failed as \<open>last_page_url\<close> and has the status
  \<open>success\<close>; it replaces the checkpoint of the first page (status \<open>partial\<close>) that
  was saved before.
\<close>

theorem final_checkpoint_after_failed_page:
  "(case scrape_all_books site_page_2_down (2 + k) None False first_process of
      Inl s \<Rightarrow> False
    | Inr s \<Rightarrow>
        checkpoints s ''main_crawl'' =
          Some \<lparr> checkpoint_id = ''main_crawl'', last_page_url = page_2,
                 last_book_url = None, total_books_crawled = 2,
                 timestamp = 2, status = SUCCESS, id_cp = None \<rparr>
        \<and> io_trace s = [GET page_1, GET book_a, GET book_b, SLEEP (1 / 2),
                        GET page_2, SLEEP 2, GET page_2, SLEEP 2, GET page_2])"
proof -
  obtain r where r: "scrape_all_books site_page_2_down 2 None False first_process = Inr r"
    and props: "checkpoints r ''main_crawl'' =
          Some \<lparr> checkpoint_id = ''main_crawl'', last_page_url = page_2,
                 last_book_url = None, total_books_crawled = 2,
                 timestamp = 2, status = SUCCESS, id_cp = None \<rparr>"
      "io_trace r = [GET page_1, GET book_a, GET book_b, SLEEP (1 / 2),
                     GET page_2, SLEEP 2, GET page_2, SLEEP 2, GET page_2]"
    using run_page_2_down by blast
  from r have "scrape_all_books site_page_2_down (2 + k) None False first_process = Inr r"
    by (rule scrape_all_books_more_fuel)
  with props show ?thesis by simp
qed

end
